theory Spec2Isabelle
  imports Complex_Main
begin

section \<open>The safety configuration\<close>

text \<open>
  The embedding follows \<^verbatim>\<open>src/utils/SafetyWrapper.js\<close>. The module keeps one mutable
  object, \<^verbatim>\<open>SAFETY_CONFIG\<close>, with two nested objects (\<^verbatim>\<open>circuitBreaker\<close>,
  \<^verbatim>\<open>testMode\<close>) and an array of provider addresses. Every function of the module reads
  and writes this object; the model passes it explicitly and returns it updated.

  Numbers: the two counters are naturals (the source only ever assigns 0 to them or
  increments them; a JavaScript increment is exact below 2^53). Prices, amounts and their
  limits are only compared, never computed with, so they are rationals: every finite
  JavaScript number is one, and \<^verbatim>\<open>>\<close> on finite numbers is the order of the
  rationals. Console output is not modelled.
\<close>

record circuit_breaker =
  consecutiveFailures :: nat
  maxFailures :: nat
  isActive :: bool

record test_mode =
  enabled :: bool
  maxTestTrades :: nat
  completedTrades :: nat
  maxTestAmount :: rat

record safety_config =
  maxSlippageTolerance :: rat
  maxGasPrice :: rat
  maxTradeSize :: rat
  authorizedFlashloanProviders :: "string list"
  circuitBreaker :: circuit_breaker
  testMode :: test_mode

text \<open>The object literal the module starts with (lines 6 to 28).\<close>

definition SAFETY_CONFIG :: safety_config where
  "SAFETY_CONFIG =
     \<lparr> maxSlippageTolerance = 50,
       maxGasPrice = 1000,
       maxTradeSize = 10000,
       authorizedFlashloanProviders =
         [''0x7d2768dE32b0b80b7a3454c06BdAc94A69DDc7A9'',
          ''0x89d065572136814230A55DdEeDDEC9DF34EB0B76'',
          ''0x470fBfb1e62D0c1c0c5b6d3b5e5e5e5e5e5e5e5'',
          ''0x1F98431c8aD98523631AE4a59f267346ea31F984'',
          ''0xcA143Ce32Fe78f1f7019d7d551a6402fC5350c73''],
       circuitBreaker = \<lparr> consecutiveFailures = 0, maxFailures = 3, isActive = False \<rparr>,
       testMode = \<lparr> enabled = True, maxTestTrades = 5, completedTrades = 0,
                    maxTestAmount = 500 \<rparr> \<rparr>"

section \<open>Errors\<close>

text \<open>
  \<^verbatim>\<open>emergencyStop(reason)\<close> throws \<^verbatim>\<open>new Error(`EMERGENCY STOP: ${reason}`)\<close>.
  The reason strings of the module are the constructors of \<open>stop_reason\<close>; the two
  that interpolate numbers carry them (the offending value, then the limit).
  \<open>Other_reason\<close> is a reason passed by a caller of the exported function.
\<close>

datatype stop_reason =
    Too_many_consecutive_failures
  | Circuit_breaker_manually_activated
  | Unauthorized_flashloan_provider string
  | Gas_price_too_high rat rat
  | Trade_size_too_large rat rat
  | Test_mode_limit_reached
  | Other_reason string

text \<open>
  What a function of the module can throw: the emergency stop; the runtime's
  \<^verbatim>\<open>TypeError\<close> (reading a property of \<^verbatim>\<open>null\<close> or \<^verbatim>\<open>undefined\<close>); or the
  value a wrapped operation rejected with, here an error identified by its message.
\<close>

datatype js_error =
    EMERGENCY_STOP stop_reason
  | TypeError
  | OperationError string

text \<open>
  A statement sequence in which an earlier call may throw: the later statements run only
  when the earlier ones returned.
\<close>

definition and_then ::
  "(js_error + unit) \<times> safety_config \<Rightarrow> (safety_config \<Rightarrow> (js_error + 'a) \<times> safety_config)
     \<Rightarrow> (js_error + 'a) \<times> safety_config" where
  "and_then r f = (case r of (Inl e, s) \<Rightarrow> (Inl e, s) | (Inr _, s) \<Rightarrow> f s)"

section \<open>Emergency stop and the circuit breaker check\<close>

text \<open>Lines 31 to 50: set the flag, log, throw. It never returns normally.\<close>

definition emergencyStop :: "safety_config \<Rightarrow> stop_reason \<Rightarrow> (js_error + 'a) \<times> safety_config" where
  "emergencyStop s reason =
     (Inl (EMERGENCY_STOP reason),
      s\<lparr>circuitBreaker := (circuitBreaker s)\<lparr>isActive := True\<rparr>\<rparr>)"

text \<open>
  The two conditions \<^verbatim>\<open>checkCircuitBreaker\<close> tests (lines 54 and 58): the breaker is
  tripped when the failure count has reached the threshold or the flag is set.
\<close>

definition tripped :: "safety_config \<Rightarrow> bool" where
  "tripped s =
     (consecutiveFailures (circuitBreaker s) \<ge> maxFailures (circuitBreaker s)
      \<or> isActive (circuitBreaker s))"

text \<open>Lines 53 to 61. The first test throws before the second is reached.\<close>

definition checkCircuitBreaker :: "safety_config \<Rightarrow> (js_error + unit) \<times> safety_config" where
  "checkCircuitBreaker s =
     (if consecutiveFailures (circuitBreaker s) \<ge> maxFailures (circuitBreaker s)
      then emergencyStop s Too_many_consecutive_failures
      else if isActive (circuitBreaker s)
      then emergencyStop s Circuit_breaker_manually_activated
      else (Inr (), s))"

section \<open>Validation\<close>

text \<open>
  Lines 64 to 69. \<^verbatim>\<open>Array.prototype.includes\<close> on strings is equality of strings,
  character by character.
\<close>

definition validateFlashloanProvider ::
  "safety_config \<Rightarrow> string \<Rightarrow> (js_error + unit) \<times> safety_config" where
  "validateFlashloanProvider s providerAddress =
     (if providerAddress \<notin> set (authorizedFlashloanProviders s)
      then emergencyStop s (Unauthorized_flashloan_provider providerAddress)
      else (Inr (), s))"

text \<open>
  The argument of \<^verbatim>\<open>validateTransaction\<close>: the function reads the properties
  \<^verbatim>\<open>gasPrice\<close> and \<^verbatim>\<open>amount\<close> and no other. A property that is absent is
  \<open>None\<close>. The record is extensible, as the object is: whatever else the caller put
  in it sits in the \<open>more\<close> part, which the function never reads.
\<close>

record tx_data =
  gasPrice :: "rat option"
  amount :: "rat option"

text \<open>
  Lines 87 to 90. \<^verbatim>\<open>txData.gasPrice && ...\<close>: an absent property and the number 0 are
  falsy, so the comparison is skipped for them (as it is for \<^verbatim>\<open>NaN\<close>, which is falsy
  too and so behaves as an absent property does).
\<close>

definition gasPriceCheck ::
  "safety_config \<Rightarrow> 'm tx_data_scheme \<Rightarrow> (js_error + unit) \<times> safety_config" where
  "gasPriceCheck s txData =
     (case gasPrice txData of
        None \<Rightarrow> (Inr (), s)
      | Some g \<Rightarrow>
          if g \<noteq> 0 \<and> g > maxGasPrice s
          then emergencyStop s (Gas_price_too_high g (maxGasPrice s))
          else (Inr (), s))"

text \<open>Lines 94 to 96: the ceiling that applies.\<close>

definition maxAllowed :: "safety_config \<Rightarrow> rat" where
  "maxAllowed s =
     (if enabled (testMode s) then maxTestAmount (testMode s) else maxTradeSize s)"

text \<open>Lines 92 to 101.\<close>

definition tradeSizeCheck ::
  "safety_config \<Rightarrow> 'm tx_data_scheme \<Rightarrow> (js_error + unit) \<times> safety_config" where
  "tradeSizeCheck s txData =
     (case amount txData of
        None \<Rightarrow> (Inr (), s)
      | Some a \<Rightarrow>
          if a \<noteq> 0
          then (if a > maxAllowed s
                then emergencyStop s (Trade_size_too_large a (maxAllowed s))
                else (Inr (), s))
          else (Inr (), s))"

text \<open>Lines 103 to 108.\<close>

definition testModeCheck :: "safety_config \<Rightarrow> (js_error + unit) \<times> safety_config" where
  "testModeCheck s =
     (if enabled (testMode s)
      then (if completedTrades (testMode s) \<ge> maxTestTrades (testMode s)
            then emergencyStop s Test_mode_limit_reached
            else (Inr (), s))
      else (Inr (), s))"

text \<open>Lines 86 to 109: the three checks in the order of the source.\<close>

definition validateTransaction ::
  "safety_config \<Rightarrow> 'm tx_data_scheme \<Rightarrow> (js_error + unit) \<times> safety_config" where
  "validateTransaction s txData =
     and_then (gasPriceCheck s txData) (\<lambda>s1.
     and_then (tradeSizeCheck s1 txData) (\<lambda>s2.
     testModeCheck s2))"

section \<open>The monitored transaction\<close>

text \<open>
  \<^verbatim>\<open>monitoredTransaction(txPromise, txDescription)\<close> is handed a promise: the caller has
  already started the operation (the repository's test passes \<^verbatim>\<open>mockTx()\<close>, not
  \<^verbatim>\<open>mockTx\<close>). What the function sees at \<^verbatim>\<open>await txPromise\<close> is how the promise
  settles: fulfilled with a result, rejected with a value whose \<^verbatim>\<open>message\<close> can be
  read, rejected with \<^verbatim>\<open>null\<close> or \<^verbatim>\<open>undefined\<close>, or never.
\<close>

datatype 'a promise =
    Fulfilled 'a
  | Rejected js_error
  | RejectedNullish
  | Pending

text \<open>Line 129, the first statement of the handler: \<^verbatim>\<open>consecutiveFailures++\<close>.\<close>

definition countFailure :: "safety_config \<Rightarrow> safety_config" where
  "countFailure s =
     s\<lparr>circuitBreaker := (circuitBreaker s)
         \<lparr>consecutiveFailures := consecutiveFailures (circuitBreaker s) + 1\<rparr>\<rparr>"

text \<open>
  Lines 117 to 124, the statements after the \<^verbatim>\<open>await\<close> when the promise was
  fulfilled: the failure count is reset, and in test mode the trade is counted.
\<close>

definition recordSuccess :: "safety_config \<Rightarrow> safety_config" where
  "recordSuccess s =
     (let s1 = s\<lparr>circuitBreaker := (circuitBreaker s)\<lparr>consecutiveFailures := 0\<rparr>\<rparr>
      in if enabled (testMode s1)
         then s1\<lparr>testMode := (testMode s1)
                  \<lparr>completedTrades := completedTrades (testMode s1) + 1\<rparr>\<rparr>
         else s1)"

text \<open>
  Lines 112 to 134. The result is what the returned promise settles to: \<open>Some (Inr r)\<close>
  fulfilled, \<open>Some (Inl e)\<close> rejected, \<open>None\<close> when the awaited promise never settles.
  In the handler, line 129 counts the failure, line 130 reads \<^verbatim>\<open>error.message\<close> (a
  \<^verbatim>\<open>TypeError\<close> when the rejection value is \<^verbatim>\<open>null\<close> or \<^verbatim>\<open>undefined\<close>, which ends the
  handler there), line 131 checks the breaker (which may throw), and line 132 throws the
  caught error.
\<close>

fun monitoredTransaction ::
  "safety_config \<Rightarrow> 'a promise \<Rightarrow> (js_error + 'a) option \<times> safety_config" where
  "monitoredTransaction s (Fulfilled result) = (Some (Inr result), recordSuccess s)"
| "monitoredTransaction s (Rejected error) =
     (case checkCircuitBreaker (countFailure s) of
        (Inl stop, s') \<Rightarrow> (Some (Inl stop), s')
      | (Inr _, s') \<Rightarrow> (Some (Inl error), s'))"
| "monitoredTransaction s RejectedNullish = (Some (Inl TypeError), countFailure s)"
| "monitoredTransaction s Pending = (None, s)"

section \<open>Administrative operations\<close>

text \<open>Lines 151 to 154.\<close>

definition activateCircuitBreaker :: "safety_config \<Rightarrow> safety_config" where
  "activateCircuitBreaker s = s\<lparr>circuitBreaker := (circuitBreaker s)\<lparr>isActive := True\<rparr>\<rparr>"

text \<open>
  Lines 157 to 161: two assignments, one after the other, in a synchronous function (no
  \<^verbatim>\<open>await\<close> between them, so no other code of the process runs in between).
\<close>

definition deactivateCircuitBreaker :: "safety_config \<Rightarrow> safety_config" where
  "deactivateCircuitBreaker s =
     (let s1 = s\<lparr>circuitBreaker := (circuitBreaker s)\<lparr>isActive := False\<rparr>\<rparr>
      in s1\<lparr>circuitBreaker := (circuitBreaker s1)\<lparr>consecutiveFailures := 0\<rparr>\<rparr>)"

text \<open>Lines 164 to 167.\<close>

definition disableTestMode :: "safety_config \<Rightarrow> safety_config" where
  "disableTestMode s = s\<lparr>testMode := (testMode s)\<lparr>enabled := False\<rparr>\<rparr>"

section \<open>Slippage and approval\<close>

text \<open>
  \<^verbatim>\<open>calculateSafeSlippage\<close> (lines 72 to 76) computes a number in floating point
  from its arguments and \<^verbatim>\<open>maxSlippageTolerance\<close> and writes nothing; its value is
  not modelled, only that a call of it leaves the state as it was.
  \<^verbatim>\<open>safeApprove\<close> (lines 79 to 83) hands \<^verbatim>\<open>amount * 1.1\<close> to the token contract
  it is given and touches no property of \<^verbatim>\<open>SAFETY_CONFIG\<close>; the contract is outside
  the module and is not modelled.
\<close>

section \<open>The status object\<close>

text \<open>
  Lines 137 to 148. The object literal that \<^verbatim>\<open>getSafetyStatus\<close> returns has four
  properties. The value of the expression \<^verbatim>\<open>SAFETY_CONFIG.circuitBreaker\<close> is the
  nested object itself, not a copy of it, and likewise for \<^verbatim>\<open>testMode\<close> and the
  array: the status object holds references into the module's state. Only
  \<^verbatim>\<open>limits\<close> is a new object, and its three properties are numbers computed at the
  call.

  The module never assigns to \<^verbatim>\<open>SAFETY_CONFIG.circuitBreaker\<close>,
  \<^verbatim>\<open>SAFETY_CONFIG.testMode\<close> or \<^verbatim>\<open>SAFETY_CONFIG.authorizedFlashloanProviders\<close>
  themselves (only to properties of the first two), so the three nested objects keep their
  identity: a reference is the name of the object it points to, and the state
  \<open>safety_config\<close> is the store that gives each of them its current contents.
\<close>

datatype objref = Ref_circuitBreaker | Ref_testMode | Ref_authorizedFlashloanProviders

datatype obj =
    Obj_circuitBreaker circuit_breaker
  | Obj_testMode test_mode
  | Obj_providers "string list"

fun deref :: "safety_config \<Rightarrow> objref \<Rightarrow> obj" where
  "deref s Ref_circuitBreaker = Obj_circuitBreaker (circuitBreaker s)"
| "deref s Ref_testMode = Obj_testMode (testMode s)"
| "deref s Ref_authorizedFlashloanProviders = Obj_providers (authorizedFlashloanProviders s)"

record limits =
  maxSlippage :: rat
  status_maxGasPrice :: rat
  status_maxTradeSize :: rat

record safety_status =
  status_circuitBreaker :: objref
  status_testMode :: objref
  status_limits :: limits
  status_authorizedProviders :: objref

definition getSafetyStatus :: "safety_config \<Rightarrow> safety_status" where
  "getSafetyStatus s =
     \<lparr> status_circuitBreaker = Ref_circuitBreaker,
       status_testMode = Ref_testMode,
       status_limits =
         \<lparr> maxSlippage = maxSlippageTolerance s / 100,
           status_maxGasPrice = maxGasPrice s,
           status_maxTradeSize =
             (if enabled (testMode s) then maxTestAmount (testMode s) else maxTradeSize s) \<rparr>,
       status_authorizedProviders = Ref_authorizedFlashloanProviders \<rparr>"

text \<open>
  What the holder of a status object reads from it (or serialises from it) while the
  module's state is \<open>s\<close>: the referenced objects with the contents they have in \<open>s\<close>,
  and the numbers stored in \<^verbatim>\<open>limits\<close>.
\<close>

record status_reading =
  read_circuitBreaker :: obj
  read_testMode :: obj
  read_limits :: limits
  read_authorizedProviders :: obj

definition readStatus :: "safety_config \<Rightarrow> safety_status \<Rightarrow> status_reading" where
  "readStatus s st =
     \<lparr> read_circuitBreaker = deref s (status_circuitBreaker st),
       read_testMode = deref s (status_testMode st),
       read_limits = status_limits st,
       read_authorizedProviders = deref s (status_authorizedProviders st) \<rparr>"

section \<open>The calls of the module\<close>

text \<open>
  The functions the module exports that touch \<^verbatim>\<open>SAFETY_CONFIG\<close>, as calls with their
  arguments, and the state each leaves behind (whether it returned or threw).
\<close>

datatype 'a call =
    Call_emergencyStop stop_reason
  | Call_checkCircuitBreaker
  | Call_validateFlashloanProvider string
  | Call_calculateSafeSlippage rat rat
  | Call_validateTransaction tx_data
  | Call_monitoredTransaction "'a promise"
  | Call_getSafetyStatus
  | Call_activateCircuitBreaker
  | Call_deactivateCircuitBreaker
  | Call_disableTestMode

fun state_after :: "'a call \<Rightarrow> safety_config \<Rightarrow> safety_config" where
  "state_after (Call_emergencyStop reason) s =
     snd (emergencyStop s reason :: (js_error + unit) \<times> safety_config)"
| "state_after Call_checkCircuitBreaker s = snd (checkCircuitBreaker s)"
| "state_after (Call_validateFlashloanProvider a) s = snd (validateFlashloanProvider s a)"
| "state_after (Call_calculateSafeSlippage amountIn expectedOut) s = s"
| "state_after (Call_validateTransaction txData) s = snd (validateTransaction s txData)"
| "state_after (Call_monitoredTransaction p) s = snd (monitoredTransaction s p)"
| "state_after Call_getSafetyStatus s = s"
| "state_after Call_activateCircuitBreaker s = activateCircuitBreaker s"
| "state_after Call_deactivateCircuitBreaker s = deactivateCircuitBreaker s"
| "state_after Call_disableTestMode s = disableTestMode s"

text \<open>A run of calls, one after the other.\<close>

definition state_after_all :: "'a call list \<Rightarrow> safety_config \<Rightarrow> safety_config" where
  "state_after_all cs s = fold state_after cs s"

section \<open>Inputs used in the statements\<close>

text \<open>
  An argument object with a further property, as a caller may pass one to
  \<^verbatim>\<open>validateTransaction\<close>: the address of the counterparty of the transaction.
\<close>

record intent = tx_data +
  counterparty :: "string option"

text \<open>A promise of an operation that fails: it is rejected, with whatever value.\<close>

fun failing :: "'a promise \<Rightarrow> bool" where
  "failing (Rejected e) = True"
| "failing RejectedNullish = True"
| "failing (Fulfilled r) = False"
| "failing Pending = False"

text \<open>
  What \<^verbatim>\<open>monitoredTransaction\<close> hands to its caller when the breaker does not step in:
  the result of the operation, the error it rejected with, or the \<^verbatim>\<open>TypeError\<close> of
  line 130 when it rejected with \<^verbatim>\<open>null\<close> or \<^verbatim>\<open>undefined\<close>.
\<close>

fun settles_to :: "'a promise \<Rightarrow> (js_error + 'a) option" where
  "settles_to (Fulfilled r) = Some (Inr r)"
| "settles_to (Rejected e) = Some (Inl e)"
| "settles_to RejectedNullish = Some (Inl TypeError)"
| "settles_to Pending = None"

section \<open>Facts about the state updates\<close>

lemma emergencyStop_eq:
  "emergencyStop s reason = (Inl (EMERGENCY_STOP reason), activateCircuitBreaker s)"
  by (simp add: emergencyStop_def activateCircuitBreaker_def)

lemma checkCircuitBreaker_eq:
  "checkCircuitBreaker s =
     (if tripped s
      then (Inl (EMERGENCY_STOP
                  (if maxFailures (circuitBreaker s) \<le> consecutiveFailures (circuitBreaker s)
                   then Too_many_consecutive_failures
                   else Circuit_breaker_manually_activated)),
            activateCircuitBreaker s)
      else (Inr (), s))"
  by (simp add: checkCircuitBreaker_def tripped_def emergencyStop_eq)

lemma countFailure_simps:
  "consecutiveFailures (circuitBreaker (countFailure s)) = consecutiveFailures (circuitBreaker s) + 1"
  "maxFailures (circuitBreaker (countFailure s)) = maxFailures (circuitBreaker s)"
  "isActive (circuitBreaker (countFailure s)) = isActive (circuitBreaker s)"
  "testMode (countFailure s) = testMode s"
  "authorizedFlashloanProviders (countFailure s) = authorizedFlashloanProviders s"
  "maxGasPrice (countFailure s) = maxGasPrice s"
  "maxTradeSize (countFailure s) = maxTradeSize s"
  "maxSlippageTolerance (countFailure s) = maxSlippageTolerance s"
  by (simp_all add: countFailure_def)

lemma activateCircuitBreaker_simps:
  "consecutiveFailures (circuitBreaker (activateCircuitBreaker s)) = consecutiveFailures (circuitBreaker s)"
  "maxFailures (circuitBreaker (activateCircuitBreaker s)) = maxFailures (circuitBreaker s)"
  "isActive (circuitBreaker (activateCircuitBreaker s)) = True"
  "testMode (activateCircuitBreaker s) = testMode s"
  "authorizedFlashloanProviders (activateCircuitBreaker s) = authorizedFlashloanProviders s"
  "maxGasPrice (activateCircuitBreaker s) = maxGasPrice s"
  "maxTradeSize (activateCircuitBreaker s) = maxTradeSize s"
  "maxSlippageTolerance (activateCircuitBreaker s) = maxSlippageTolerance s"
  by (simp_all add: activateCircuitBreaker_def)

lemma recordSuccess_simps:
  "consecutiveFailures (circuitBreaker (recordSuccess s)) = 0"
  "maxFailures (circuitBreaker (recordSuccess s)) = maxFailures (circuitBreaker s)"
  "isActive (circuitBreaker (recordSuccess s)) = isActive (circuitBreaker s)"
  "enabled (testMode (recordSuccess s)) = enabled (testMode s)"
  "maxTestTrades (testMode (recordSuccess s)) = maxTestTrades (testMode s)"
  "maxTestAmount (testMode (recordSuccess s)) = maxTestAmount (testMode s)"
  "completedTrades (testMode (recordSuccess s)) =
     (if enabled (testMode s) then completedTrades (testMode s) + 1
      else completedTrades (testMode s))"
  "authorizedFlashloanProviders (recordSuccess s) = authorizedFlashloanProviders s"
  "maxGasPrice (recordSuccess s) = maxGasPrice s"
  "maxTradeSize (recordSuccess s) = maxTradeSize s"
  "maxSlippageTolerance (recordSuccess s) = maxSlippageTolerance s"
  by (simp_all add: recordSuccess_def Let_def)

lemma deactivateCircuitBreaker_simps:
  "consecutiveFailures (circuitBreaker (deactivateCircuitBreaker s)) = 0"
  "maxFailures (circuitBreaker (deactivateCircuitBreaker s)) = maxFailures (circuitBreaker s)"
  "isActive (circuitBreaker (deactivateCircuitBreaker s)) = False"
  "testMode (deactivateCircuitBreaker s) = testMode s"
  "authorizedFlashloanProviders (deactivateCircuitBreaker s) = authorizedFlashloanProviders s"
  "maxGasPrice (deactivateCircuitBreaker s) = maxGasPrice s"
  "maxTradeSize (deactivateCircuitBreaker s) = maxTradeSize s"
  "maxSlippageTolerance (deactivateCircuitBreaker s) = maxSlippageTolerance s"
  by (simp_all add: deactivateCircuitBreaker_def Let_def)

text \<open>
  Each check of the validator either returns and leaves the state alone, or throws an
  emergency stop and leaves the state with the flag set.
\<close>

lemma gasPriceCheck_cases:
  "gasPriceCheck s txData = (Inr (), s) \<or>
   (\<exists>r. gasPriceCheck s txData = (Inl (EMERGENCY_STOP r), activateCircuitBreaker s))"
  by (simp add: gasPriceCheck_def emergencyStop_eq split: option.split)

lemma tradeSizeCheck_cases:
  "tradeSizeCheck s txData = (Inr (), s) \<or>
   (\<exists>r. tradeSizeCheck s txData = (Inl (EMERGENCY_STOP r), activateCircuitBreaker s))"
  by (simp add: tradeSizeCheck_def emergencyStop_eq split: option.split)

lemma testModeCheck_cases:
  "testModeCheck s = (Inr (), s) \<or>
   (\<exists>r. testModeCheck s = (Inl (EMERGENCY_STOP r), activateCircuitBreaker s))"
  by (simp add: testModeCheck_def emergencyStop_eq)

lemma validateTransaction_cases:
  "validateTransaction s txData = (Inr (), s) \<or>
   (\<exists>r. validateTransaction s txData = (Inl (EMERGENCY_STOP r), activateCircuitBreaker s))"
  using gasPriceCheck_cases [of s txData] tradeSizeCheck_cases [of s txData]
    testModeCheck_cases [of s]
  by (auto simp: validateTransaction_def and_then_def)

lemma validateFlashloanProvider_cases:
  "validateFlashloanProvider s a = (Inr (), s) \<or>
   (\<exists>r. validateFlashloanProvider s a = (Inl (EMERGENCY_STOP r), activateCircuitBreaker s))"
  by (simp add: validateFlashloanProvider_def emergencyStop_eq)

text \<open>The handler of \<^verbatim>\<open>monitoredTransaction\<close>, with the breaker check worked out.\<close>

lemma monitoredTransaction_Rejected_eq:
  "monitoredTransaction s (Rejected e) =
     (if tripped (countFailure s)
      then (Some (Inl (EMERGENCY_STOP
                        (if maxFailures (circuitBreaker s) \<le> consecutiveFailures (circuitBreaker s) + 1
                         then Too_many_consecutive_failures
                         else Circuit_breaker_manually_activated))),
            activateCircuitBreaker (countFailure s))
      else (Some (Inl e), countFailure s))"
  by (simp add: checkCircuitBreaker_eq countFailure_simps)

text \<open>The two value checks, with the cases in which they let a transaction pass.\<close>

lemma gasPriceCheck_passes:
  "gasPriceCheck s txData =
     (case gasPrice txData of
        None \<Rightarrow> (Inr (), s)
      | Some g \<Rightarrow> if g = 0 \<or> g \<le> maxGasPrice s then (Inr (), s)
                 else (Inl (EMERGENCY_STOP (Gas_price_too_high g (maxGasPrice s))),
                       activateCircuitBreaker s))"
  by (auto simp: gasPriceCheck_def emergencyStop_eq split: option.split)

lemma tradeSizeCheck_passes:
  "tradeSizeCheck s txData =
     (case amount txData of
        None \<Rightarrow> (Inr (), s)
      | Some a \<Rightarrow> if a = 0 \<or> a \<le> maxAllowed s then (Inr (), s)
                 else (Inl (EMERGENCY_STOP (Trade_size_too_large a (maxAllowed s))),
                       activateCircuitBreaker s))"
  by (auto simp: tradeSizeCheck_def emergencyStop_eq split: option.split)

text \<open>The state each call leaves behind.\<close>

lemma snd_validateTransaction:
  "snd (validateTransaction s txData) = s \<or>
   snd (validateTransaction s txData) = activateCircuitBreaker s"
  using validateTransaction_cases [of s txData] by auto

lemma snd_validateFlashloanProvider:
  "snd (validateFlashloanProvider s a) = s \<or>
   snd (validateFlashloanProvider s a) = activateCircuitBreaker s"
  using validateFlashloanProvider_cases [of s a] by auto

lemma snd_checkCircuitBreaker:
  "snd (checkCircuitBreaker s) = s \<or> snd (checkCircuitBreaker s) = activateCircuitBreaker s"
  by (simp add: checkCircuitBreaker_eq)

lemma snd_monitoredTransaction:
  "snd (monitoredTransaction s p) =
     (case p of
        Fulfilled r \<Rightarrow> recordSuccess s
      | Rejected e \<Rightarrow> if tripped (countFailure s) then activateCircuitBreaker (countFailure s)
                      else countFailure s
      | RejectedNullish \<Rightarrow> countFailure s
      | Pending \<Rightarrow> s)"
  by (cases p) (simp_all add: monitoredTransaction_Rejected_eq del: monitoredTransaction.simps(2))

text \<open>No call of the module changes the list of authorized providers.\<close>

lemma state_after_providers:
  "authorizedFlashloanProviders (state_after c s) = authorizedFlashloanProviders s"
proof (cases c)
  case (Call_validateFlashloanProvider a)
  then show ?thesis
    using snd_validateFlashloanProvider [of s a] by (auto simp: activateCircuitBreaker_simps)
next
  case (Call_validateTransaction txData)
  then show ?thesis
    using snd_validateTransaction [of s txData] by (auto simp: activateCircuitBreaker_simps)
next
  case Call_checkCircuitBreaker
  then show ?thesis
    using snd_checkCircuitBreaker [of s] by (auto simp: activateCircuitBreaker_simps)
next
  case (Call_monitoredTransaction p)
  then show ?thesis
    by (simp add: snd_monitoredTransaction activateCircuitBreaker_simps countFailure_simps
        recordSuccess_simps split: promise.split)
qed (simp_all add: emergencyStop_eq activateCircuitBreaker_simps deactivateCircuitBreaker_simps
      disableTestMode_def)

lemma state_after_all_providers:
  "authorizedFlashloanProviders (state_after_all cs s) = authorizedFlashloanProviders s"
  unfolding state_after_all_def
  by (induction cs arbitrary: s) (simp_all add: state_after_providers)

text \<open>The states the two paths of \<^verbatim>\<open>monitoredTransaction\<close> leave behind, written out.\<close>

lemma recordSuccess_eq:
  "recordSuccess s =
     s\<lparr>circuitBreaker := (circuitBreaker s)\<lparr>consecutiveFailures := 0\<rparr>,
       testMode := (testMode s)
         \<lparr>completedTrades :=
            (if enabled (testMode s) then completedTrades (testMode s) + 1
             else completedTrades (testMode s))\<rparr>\<rparr>"
  by (simp add: recordSuccess_def Let_def)

lemma countFailure_activate_eq:
  "activateCircuitBreaker (countFailure s) =
     s\<lparr>circuitBreaker := (circuitBreaker s)
         \<lparr>consecutiveFailures := consecutiveFailures (circuitBreaker s) + 1,
          isActive := True\<rparr>\<rparr>"
  by (simp add: activateCircuitBreaker_def countFailure_def)

section \<open>C1: a tripped breaker and the monitored transaction\<close>

text \<open>
  C1 as stated fails. The claim: in every state in which the breaker is tripped, a call
  of \<^verbatim>\<open>monitoredTransaction\<close> fails with the breaker's error and the operation is not
  run. The function has no check before \<^verbatim>\<open>await\<close>: with the flag set by
  \<^verbatim>\<open>activateCircuitBreaker\<close> on the initial configuration, a fulfilled promise is
  handed back to the caller as a normal result.
\<close>

theorem tripped_breaker_lets_success_through:
  "tripped (activateCircuitBreaker SAFETY_CONFIG) \<and>
   fst (monitoredTransaction (activateCircuitBreaker SAFETY_CONFIG) (Fulfilled ''0x123''))
     = Some (Inr ''0x123'')"
  by (simp add: tripped_def activateCircuitBreaker_def)

text \<open>
  C1, amended. In every state in which the breaker is tripped, a call of
  \<^verbatim>\<open>monitoredTransaction\<close> whose operation fails (with a value whose message can be
  read) is rejected with the emergency stop instead of the operation's own error; the
  state it leaves behind is the state before with the failure counted and the flag set.
  The operation itself has been started by the caller before the call; when it
  succeeds, its result is returned, and the state left behind is the state before with
  the failure count reset to 0 and, while test mode is enabled, \<^verbatim>\<open>completedTrades\<close>
  one higher (with test mode disabled no trade is counted); the flag and everything else
  are left as they were.
\<close>

theorem tripped_breaker_stops_failing_calls:
  assumes "tripped s"
  shows "monitoredTransaction s (Rejected e :: 'a promise) =
           (Some (Inl (EMERGENCY_STOP
                        (if maxFailures (circuitBreaker s) \<le> consecutiveFailures (circuitBreaker s) + 1
                         then Too_many_consecutive_failures
                         else Circuit_breaker_manually_activated))),
            s\<lparr>circuitBreaker := (circuitBreaker s)
                \<lparr>consecutiveFailures := consecutiveFailures (circuitBreaker s) + 1,
                 isActive := True\<rparr>\<rparr>)
         \<and> monitoredTransaction s (Fulfilled (r :: 'a)) =
           (Some (Inr r),
            s\<lparr>circuitBreaker := (circuitBreaker s)\<lparr>consecutiveFailures := 0\<rparr>,
              testMode := (testMode s)
                \<lparr>completedTrades :=
                   (if enabled (testMode s) then completedTrades (testMode s) + 1
                    else completedTrades (testMode s))\<rparr>\<rparr>)"
proof -
  from assms have "tripped (countFailure s)"
    by (auto simp: tripped_def countFailure_simps)
  then have "monitoredTransaction s (Rejected e :: 'a promise) =
           (Some (Inl (EMERGENCY_STOP
                        (if maxFailures (circuitBreaker s) \<le> consecutiveFailures (circuitBreaker s) + 1
                         then Too_many_consecutive_failures
                         else Circuit_breaker_manually_activated))),
            activateCircuitBreaker (countFailure s))"
    by (simp add: monitoredTransaction_Rejected_eq del: monitoredTransaction.simps(2))
  moreover have "monitoredTransaction s (Fulfilled r) = (Some (Inr r), recordSuccess s)"
    by simp
  ultimately show ?thesis
    unfolding recordSuccess_eq countFailure_activate_eq by blast
qed

text \<open>
  The amended C1 at a concrete state: the initial configuration after
  \<^verbatim>\<open>activateCircuitBreaker\<close>, a reverting operation and a succeeding one. The
  succeeding one is counted as test trade 1 of 5.
\<close>

theorem tripped_breaker_stops_failing_calls_witness:
  "tripped (activateCircuitBreaker SAFETY_CONFIG) \<and>
   monitoredTransaction (activateCircuitBreaker SAFETY_CONFIG)
       (Rejected (OperationError ''revert'') :: string promise)
     = (Some (Inl (EMERGENCY_STOP Circuit_breaker_manually_activated)),
        SAFETY_CONFIG\<lparr>circuitBreaker :=
          \<lparr>consecutiveFailures = 1, maxFailures = 3, isActive = True\<rparr>\<rparr>)
   \<and> monitoredTransaction (activateCircuitBreaker SAFETY_CONFIG) (Fulfilled ''0x123'')
     = (Some (Inr ''0x123''),
        SAFETY_CONFIG\<lparr>circuitBreaker :=
            \<lparr>consecutiveFailures = 0, maxFailures = 3, isActive = True\<rparr>,
          testMode :=
            \<lparr>enabled = True, maxTestTrades = 5, completedTrades = 1, maxTestAmount = 500\<rparr>\<rparr>)"
proof -
  have t: "tripped (activateCircuitBreaker SAFETY_CONFIG)"
    by (simp add: tripped_def activateCircuitBreaker_simps)
  note th = tripped_breaker_stops_failing_calls [OF t, of "OperationError ''revert''" "''0x123''"]
  from th have "monitoredTransaction (activateCircuitBreaker SAFETY_CONFIG)
       (Rejected (OperationError ''revert'') :: string promise)
     = (Some (Inl (EMERGENCY_STOP Circuit_breaker_manually_activated)),
        SAFETY_CONFIG\<lparr>circuitBreaker :=
          \<lparr>consecutiveFailures = 1, maxFailures = 3, isActive = True\<rparr>\<rparr>)"
    by (simp add: activateCircuitBreaker_def SAFETY_CONFIG_def del: monitoredTransaction.simps)
  moreover from th have "monitoredTransaction (activateCircuitBreaker SAFETY_CONFIG) (Fulfilled ''0x123'')
     = (Some (Inr ''0x123''),
        SAFETY_CONFIG\<lparr>circuitBreaker :=
            \<lparr>consecutiveFailures = 0, maxFailures = 3, isActive = True\<rparr>,
          testMode :=
            \<lparr>enabled = True, maxTestTrades = 5, completedTrades = 1, maxTestAmount = 500\<rparr>\<rparr>)"
    by (simp add: activateCircuitBreaker_def SAFETY_CONFIG_def del: monitoredTransaction.simps)
  ultimately show ?thesis
    using t by blast
qed

section \<open>C2: what a failing operation raises\<close>

text \<open>
  C2 as stated fails. The claim: for every failing operation the wrapper re-raises the
  operation's own error and never replaces it. With two failures already counted in the
  initial configuration, the third failing operation (it rejects with the error
  \<^verbatim>\<open>revert\<close>) is answered with the emergency stop: \<^verbatim>\<open>checkCircuitBreaker\<close> on line 131
  throws, and line 132 is not reached.
\<close>

theorem third_failure_replaces_error:
  "fst (monitoredTransaction
         (SAFETY_CONFIG\<lparr>circuitBreaker :=
            (circuitBreaker SAFETY_CONFIG)\<lparr>consecutiveFailures := 2\<rparr>\<rparr>)
         (Rejected (OperationError ''revert'') :: string promise))
     = Some (Inl (EMERGENCY_STOP Too_many_consecutive_failures))
   \<and> EMERGENCY_STOP Too_many_consecutive_failures \<noteq> OperationError ''revert''"
  by (simp add: monitoredTransaction_Rejected_eq tripped_def countFailure_simps SAFETY_CONFIG_def
      del: monitoredTransaction.simps(2))

text \<open>
  C2, amended. For every operation that fails with a value whose message can be read,
  the wrapper adds one to \<^verbatim>\<open>consecutiveFailures\<close> and evaluates the breaker on the new
  count; it always rejects, never returns normally. When the breaker is not tripped at
  the new count, the error raised is the operation's own and nothing else changes; when
  it is tripped, the error raised is the emergency stop (too many failures when the new
  count reaches the threshold, manual activation otherwise) and the flag is set.
\<close>

theorem failure_is_counted_and_raised:
  "monitoredTransaction s (Rejected e) =
     (if tripped (countFailure s)
      then (Some (Inl (EMERGENCY_STOP
                        (if maxFailures (circuitBreaker s) \<le> consecutiveFailures (circuitBreaker s) + 1
                         then Too_many_consecutive_failures
                         else Circuit_breaker_manually_activated))),
            activateCircuitBreaker (countFailure s))
      else (Some (Inl e), countFailure s))
   \<and> consecutiveFailures (circuitBreaker (snd (monitoredTransaction s (Rejected e))))
       = consecutiveFailures (circuitBreaker s) + 1"
  by (simp add: monitoredTransaction_Rejected_eq countFailure_simps activateCircuitBreaker_simps
      del: monitoredTransaction.simps(2))

text \<open>
  The amended C2 at the initial configuration: the first failure comes back as it was
  thrown, and the count is 1.
\<close>

theorem failure_is_counted_and_raised_witness:
  "monitoredTransaction SAFETY_CONFIG (Rejected (OperationError ''revert'') :: string promise)
     = (Some (Inl (OperationError ''revert'')), countFailure SAFETY_CONFIG)
   \<and> consecutiveFailures (circuitBreaker (snd (monitoredTransaction SAFETY_CONFIG
         (Rejected (OperationError ''revert'') :: string promise)))) = 1"
proof -
  have "\<not> tripped (countFailure SAFETY_CONFIG)"
    by (simp add: tripped_def countFailure_simps SAFETY_CONFIG_def)
  moreover have "consecutiveFailures (circuitBreaker SAFETY_CONFIG) = 0"
    by (simp add: SAFETY_CONFIG_def)
  ultimately show ?thesis
    using failure_is_counted_and_raised [of SAFETY_CONFIG "OperationError ''revert''", where ?'a = string]
    by (simp del: monitoredTransaction.simps)
qed

section \<open>C3: the test mode limit\<close>

text \<open>
  C3 as stated fails. The claim: with test mode enabled and \<^verbatim>\<open>completedTrades\<close> at
  \<^verbatim>\<open>maxTestTrades\<close>, \<^verbatim>\<open>validateTransaction\<close> rejects with the test limit as the
  reason whatever the amount, also when the amount exceeds the ceiling. The trade size
  check comes first in the source and throws first: with 5 of 5 test trades completed, an
  amount of 1000 is rejected as too large (1000 > 500), not for the test limit.
\<close>

theorem oversized_amount_hides_test_limit:
  "fst (validateTransaction
         (SAFETY_CONFIG\<lparr>testMode := (testMode SAFETY_CONFIG)\<lparr>completedTrades := 5\<rparr>\<rparr>)
         \<lparr>gasPrice = None, amount = Some 1000\<rparr>)
     = Inl (EMERGENCY_STOP (Trade_size_too_large 1000 500))
   \<and> EMERGENCY_STOP (Trade_size_too_large 1000 500) \<noteq> EMERGENCY_STOP Test_mode_limit_reached"
  by (simp add: validateTransaction_def and_then_def gasPriceCheck_def tradeSizeCheck_def
      maxAllowed_def emergencyStop_def SAFETY_CONFIG_def)

text \<open>
  C3, amended. With test mode enabled and \<^verbatim>\<open>completedTrades >= maxTestTrades\<close>,
  \<^verbatim>\<open>validateTransaction\<close> rejects every argument object with an emergency stop, and
  the state it leaves behind is the state before with the flag set. The reason is that of
  the first check that fires, in the order of the source: a gas price that is present,
  not 0 and above \<^verbatim>\<open>maxGasPrice\<close> gives the gas price reason, whatever the amount;
  otherwise an amount that is present, not 0 and above \<^verbatim>\<open>maxTestAmount\<close> gives the
  trade size reason; otherwise the reason is the test limit.
\<close>

theorem test_limit_rejects_after_earlier_checks:
  assumes "enabled (testMode s)"
    and "maxTestTrades (testMode s) \<le> completedTrades (testMode s)"
  shows "validateTransaction s txData =
           (Inl (EMERGENCY_STOP
                  (case gasPrice txData of
                     None \<Rightarrow>
                       (case amount txData of
                          None \<Rightarrow> Test_mode_limit_reached
                        | Some a \<Rightarrow>
                            if a \<noteq> 0 \<and> maxTestAmount (testMode s) < a
                            then Trade_size_too_large a (maxTestAmount (testMode s))
                            else Test_mode_limit_reached)
                   | Some g \<Rightarrow>
                       if g \<noteq> 0 \<and> maxGasPrice s < g
                       then Gas_price_too_high g (maxGasPrice s)
                       else (case amount txData of
                               None \<Rightarrow> Test_mode_limit_reached
                             | Some a \<Rightarrow>
                                 if a \<noteq> 0 \<and> maxTestAmount (testMode s) < a
                                 then Trade_size_too_large a (maxTestAmount (testMode s))
                                 else Test_mode_limit_reached))),
            s\<lparr>circuitBreaker := (circuitBreaker s)\<lparr>isActive := True\<rparr>\<rparr>)"
proof -
  from assms have t: "testModeCheck s =
      (Inl (EMERGENCY_STOP Test_mode_limit_reached), activateCircuitBreaker s)"
    by (simp add: testModeCheck_def emergencyStop_eq)
  from assms have m: "maxAllowed s = maxTestAmount (testMode s)"
    by (simp add: maxAllowed_def)
  have a: "activateCircuitBreaker s = s\<lparr>circuitBreaker := (circuitBreaker s)\<lparr>isActive := True\<rparr>\<rparr>"
    by (simp add: activateCircuitBreaker_def)
  show ?thesis
    unfolding validateTransaction_def and_then_def gasPriceCheck_passes tradeSizeCheck_passes
    by (auto simp: t m a split: option.split)
qed

text \<open>
  The amended C3 at three concrete inputs, with 5 of 5 test trades completed: amount 100
  and gas price 500 (both within their limits) give the test limit; amount 1000 and gas
  price 500 give the trade size reason; amount 1000 and gas price 2000 give the gas
  price reason.
\<close>

theorem test_limit_rejects_after_earlier_checks_witness:
  "enabled (testMode (SAFETY_CONFIG\<lparr>testMode := (testMode SAFETY_CONFIG)\<lparr>completedTrades := 5\<rparr>\<rparr>))
   \<and> fst (validateTransaction
         (SAFETY_CONFIG\<lparr>testMode := (testMode SAFETY_CONFIG)\<lparr>completedTrades := 5\<rparr>\<rparr>)
         \<lparr>gasPrice = Some 500, amount = Some 100\<rparr>)
       = Inl (EMERGENCY_STOP Test_mode_limit_reached)
   \<and> fst (validateTransaction
         (SAFETY_CONFIG\<lparr>testMode := (testMode SAFETY_CONFIG)\<lparr>completedTrades := 5\<rparr>\<rparr>)
         \<lparr>gasPrice = Some 500, amount = Some 1000\<rparr>)
       = Inl (EMERGENCY_STOP (Trade_size_too_large 1000 500))
   \<and> fst (validateTransaction
         (SAFETY_CONFIG\<lparr>testMode := (testMode SAFETY_CONFIG)\<lparr>completedTrades := 5\<rparr>\<rparr>)
         \<lparr>gasPrice = Some 2000, amount = Some 1000\<rparr>)
       = Inl (EMERGENCY_STOP (Gas_price_too_high 2000 1000))
   \<and> isActive (circuitBreaker (snd (validateTransaction
         (SAFETY_CONFIG\<lparr>testMode := (testMode SAFETY_CONFIG)\<lparr>completedTrades := 5\<rparr>\<rparr>)
         \<lparr>gasPrice = Some 500, amount = Some 100\<rparr>)))"
proof -
  let ?s = "SAFETY_CONFIG\<lparr>testMode := (testMode SAFETY_CONFIG)\<lparr>completedTrades := 5\<rparr>\<rparr>"
  have e: "enabled (testMode ?s)"
    by (simp add: SAFETY_CONFIG_def)
  have c: "maxTestTrades (testMode ?s) \<le> completedTrades (testMode ?s)"
    by (simp add: SAFETY_CONFIG_def)
  have g: "maxGasPrice SAFETY_CONFIG = 1000" "maxTestAmount (testMode SAFETY_CONFIG) = 500"
    by (simp_all add: SAFETY_CONFIG_def)
  note th = test_limit_rejects_after_earlier_checks [OF e c]
  show ?thesis
    using e by (simp add: th g)
qed

section \<open>C4: every rejection of the validator sets the flag\<close>

text \<open>
  C4. Whenever \<^verbatim>\<open>validateTransaction\<close> or \<^verbatim>\<open>validateFlashloanProvider\<close> rejects
  (gas price, trade size, test limit, unauthorized provider), the error reaches the
  caller, it is an emergency stop, and \<^verbatim>\<open>isActive\<close> is true in the state the call
  leaves behind: no rejection leaves the breaker untripped.
\<close>

theorem validator_rejection_trips_breaker:
  assumes "validateTransaction s txData = (Inl e, s') \<or> validateFlashloanProvider s a = (Inl e, s')"
  shows "isActive (circuitBreaker s') \<and> (\<exists>reason. e = EMERGENCY_STOP reason)"
  using assms validateTransaction_cases [of s txData] validateFlashloanProvider_cases [of s a]
  by (auto simp: activateCircuitBreaker_def)

text \<open>
  C4 at concrete inputs, one for each function: the oversized trade of the repository's
  test (amount 1000 in test mode) and the unauthorized address of the same test.
\<close>

theorem validator_rejection_trips_breaker_witness:
  "validateTransaction SAFETY_CONFIG \<lparr>gasPrice = Some 500, amount = Some 1000\<rparr>
     = (Inl (EMERGENCY_STOP (Trade_size_too_large 1000 500)), activateCircuitBreaker SAFETY_CONFIG)
   \<and> validateFlashloanProvider SAFETY_CONFIG ''0x1234567890123456789012345678901234567890''
     = (Inl (EMERGENCY_STOP
              (Unauthorized_flashloan_provider ''0x1234567890123456789012345678901234567890'')),
        activateCircuitBreaker SAFETY_CONFIG)
   \<and> isActive (circuitBreaker (activateCircuitBreaker SAFETY_CONFIG))"
proof -
  have v: "validateTransaction SAFETY_CONFIG \<lparr>gasPrice = Some 500, amount = Some 1000\<rparr>
     = (Inl (EMERGENCY_STOP (Trade_size_too_large 1000 500)), activateCircuitBreaker SAFETY_CONFIG)"
    by (simp add: validateTransaction_def and_then_def gasPriceCheck_def tradeSizeCheck_def
        maxAllowed_def emergencyStop_eq SAFETY_CONFIG_def)
  have p: "validateFlashloanProvider SAFETY_CONFIG ''0x1234567890123456789012345678901234567890''
     = (Inl (EMERGENCY_STOP
              (Unauthorized_flashloan_provider ''0x1234567890123456789012345678901234567890'')),
        activateCircuitBreaker SAFETY_CONFIG)"
    by (simp add: validateFlashloanProvider_def emergencyStop_eq SAFETY_CONFIG_def)
  from validator_rejection_trips_breaker [OF disjI1 [OF v]]
    validator_rejection_trips_breaker [OF disjI2 [OF p]]
  show ?thesis
    using v p by simp
qed

section \<open>C5: the counterparty check\<close>

text \<open>
  C5 as stated fails. The claim: \<^verbatim>\<open>validate\<close> rejects every intent whose counterparty
  is present and not on the list. \<^verbatim>\<open>validateTransaction\<close> never reads a counterparty:
  an argument that carries an address that is not on the list, and nothing else, passes
  in the initial configuration and leaves the state as it was.
\<close>

theorem validateTransaction_ignores_counterparty:
  "''0x1234567890123456789012345678901234567890'' \<notin> set (authorizedFlashloanProviders SAFETY_CONFIG)
   \<and> validateTransaction SAFETY_CONFIG
        \<lparr>gasPrice = None, amount = None,
         counterparty = Some ''0x1234567890123456789012345678901234567890''\<rparr>
      = (Inr (), SAFETY_CONFIG)"
  by (simp add: validateTransaction_def and_then_def gasPriceCheck_def tradeSizeCheck_def
      testModeCheck_def SAFETY_CONFIG_def)

text \<open>
  C5, amended. The check of the counterparty is the separate function
  \<^verbatim>\<open>validateFlashloanProvider\<close>, called with the address: every address that is not
  an element of \<^verbatim>\<open>authorizedFlashloanProviders\<close> (equality of strings, so case
  matters) is rejected with the emergency stop that names it, and the flag is set.
\<close>

theorem unauthorized_provider_rejected:
  assumes "providerAddress \<notin> set (authorizedFlashloanProviders s)"
  shows "validateFlashloanProvider s providerAddress
           = (Inl (EMERGENCY_STOP (Unauthorized_flashloan_provider providerAddress)),
              s\<lparr>circuitBreaker := (circuitBreaker s)\<lparr>isActive := True\<rparr>\<rparr>)"
  using assms by (simp add: validateFlashloanProvider_def emergencyStop_def)

text \<open>
  The amended C5 at a concrete input: the first authorized address of the initial
  configuration, written in upper case, is not on the list and is rejected.
\<close>

theorem unauthorized_provider_rejected_witness:
  "''0x7D2768DE32B0B80B7A3454C06BDAC94A69DDC7A9'' \<notin> set (authorizedFlashloanProviders SAFETY_CONFIG)
   \<and> ''0x7d2768dE32b0b80b7a3454c06BdAc94A69DDc7A9'' \<in> set (authorizedFlashloanProviders SAFETY_CONFIG)
   \<and> validateFlashloanProvider SAFETY_CONFIG ''0x7D2768DE32B0B80B7A3454C06BDAC94A69DDC7A9''
       = (Inl (EMERGENCY_STOP
                (Unauthorized_flashloan_provider ''0x7D2768DE32B0B80B7A3454C06BDAC94A69DDC7A9'')),
          SAFETY_CONFIG\<lparr>circuitBreaker := (circuitBreaker SAFETY_CONFIG)\<lparr>isActive := True\<rparr>\<rparr>)"
proof -
  have n: "''0x7D2768DE32B0B80B7A3454C06BDAC94A69DDC7A9'' \<notin> set (authorizedFlashloanProviders SAFETY_CONFIG)"
    by (simp add: SAFETY_CONFIG_def)
  have i: "''0x7d2768dE32b0b80b7a3454c06BdAc94A69DDc7A9'' \<in> set (authorizedFlashloanProviders SAFETY_CONFIG)"
    by (simp add: SAFETY_CONFIG_def)
  from unauthorized_provider_rejected [OF n] n i show ?thesis
    by simp
qed

section \<open>C6: the status object and later changes\<close>

text \<open>
  C6 as stated fails. The claim: what \<^verbatim>\<open>getSafetyStatus\<close> returned is a copy, and no
  later change of the state changes what is read through it. The returned object holds
  the \<^verbatim>\<open>circuitBreaker\<close> object of the module itself: a status taken in the initial
  configuration reads \<^verbatim>\<open>isActive = false\<close>, and after \<^verbatim>\<open>activateCircuitBreaker\<close> the
  same status object reads \<^verbatim>\<open>isActive = true\<close>.
\<close>

theorem status_follows_later_activation:
  "read_circuitBreaker (readStatus SAFETY_CONFIG (getSafetyStatus SAFETY_CONFIG))
     = Obj_circuitBreaker \<lparr>consecutiveFailures = 0, maxFailures = 3, isActive = False\<rparr>
   \<and> read_circuitBreaker
       (readStatus (state_after_all [Call_activateCircuitBreaker :: unit call] SAFETY_CONFIG)
          (getSafetyStatus SAFETY_CONFIG))
     = Obj_circuitBreaker \<lparr>consecutiveFailures = 0, maxFailures = 3, isActive = True\<rparr>"
  by (simp add: readStatus_def getSafetyStatus_def state_after_all_def activateCircuitBreaker_def
      SAFETY_CONFIG_def)

text \<open>
  C6, amended. At the call (no calls in between) the status reads the state as it is.
  After any run of calls of the module, the \<^verbatim>\<open>limits\<close> of a status object still read
  the values computed when it was taken, and the provider list is unchanged because no
  call changes it; its \<^verbatim>\<open>circuitBreaker\<close> and \<^verbatim>\<open>testMode\<close> read the current state,
  not the state at the time of the call.
\<close>

theorem status_reading_after_calls:
  "readStatus (state_after_all cs s) (getSafetyStatus s) =
     \<lparr> read_circuitBreaker = Obj_circuitBreaker (circuitBreaker (state_after_all cs s)),
       read_testMode = Obj_testMode (testMode (state_after_all cs s)),
       read_limits =
         \<lparr> maxSlippage = maxSlippageTolerance s / 100,
           status_maxGasPrice = maxGasPrice s,
           status_maxTradeSize = maxAllowed s \<rparr>,
       read_authorizedProviders = Obj_providers (authorizedFlashloanProviders s) \<rparr>"
  by (simp add: readStatus_def getSafetyStatus_def maxAllowed_def state_after_all_providers)

text \<open>
  The amended C6 on a concrete run: the status is taken in the initial configuration,
  then test mode is disabled and the breaker activated. The trade size limit still reads
  500, the test mode ceiling of the time of the call; the two nested objects read the
  new state.
\<close>

theorem status_reading_after_calls_witness:
  "readStatus (state_after_all [Call_disableTestMode, Call_activateCircuitBreaker :: unit call] SAFETY_CONFIG)
      (getSafetyStatus SAFETY_CONFIG) =
     \<lparr> read_circuitBreaker =
         Obj_circuitBreaker \<lparr>consecutiveFailures = 0, maxFailures = 3, isActive = True\<rparr>,
       read_testMode =
         Obj_testMode \<lparr>enabled = False, maxTestTrades = 5, completedTrades = 0, maxTestAmount = 500\<rparr>,
       read_limits = \<lparr> maxSlippage = 1 / 2, status_maxGasPrice = 1000, status_maxTradeSize = 500 \<rparr>,
       read_authorizedProviders = Obj_providers (authorizedFlashloanProviders SAFETY_CONFIG) \<rparr>"
proof -
  have s: "state_after_all [Call_disableTestMode, Call_activateCircuitBreaker :: unit call] SAFETY_CONFIG
      = SAFETY_CONFIG\<lparr>circuitBreaker := \<lparr>consecutiveFailures = 0, maxFailures = 3, isActive = True\<rparr>,
          testMode := \<lparr>enabled = False, maxTestTrades = 5, completedTrades = 0, maxTestAmount = 500\<rparr>\<rparr>"
    by (simp add: state_after_all_def disableTestMode_def activateCircuitBreaker_def SAFETY_CONFIG_def)
  have l: "maxSlippageTolerance SAFETY_CONFIG / 100 = 1 / 2" "maxGasPrice SAFETY_CONFIG = 1000"
    "maxAllowed SAFETY_CONFIG = 500"
    by (simp_all add: SAFETY_CONFIG_def maxAllowed_def)
  show ?thesis
    using status_reading_after_calls
      [of "[Call_disableTestMode, Call_activateCircuitBreaker :: unit call]" SAFETY_CONFIG]
    by (simp add: s l)
qed

section \<open>C7: three failures trip the breaker, two do not\<close>

text \<open>
  What holds of three failing calls in a row, with a threshold of 3, no failures counted
  and the flag not set. After two, the count is 2, the flag is not set, and both calls
  handed the operation's own failure to the caller. After the third the count is 3; the
  third call raises the emergency stop and sets the flag when the operation rejected
  with a value whose message can be read, and only then: when it rejected with
  \<^verbatim>\<open>null\<close> or \<^verbatim>\<open>undefined\<close>, line 130 throws a \<^verbatim>\<open>TypeError\<close> before the check on
  line 131 is reached, and the flag stays as it was.
\<close>

lemma three_failures_in_a_row:
  assumes "consecutiveFailures (circuitBreaker s) = 0"
    and "\<not> isActive (circuitBreaker s)"
    and "maxFailures (circuitBreaker s) = 3"
    and "failing p1" and "failing p2" and "failing p3"
  shows "let s1 = snd (monitoredTransaction s p1);
             s2 = snd (monitoredTransaction s1 p2);
             s3 = snd (monitoredTransaction s2 p3)
         in fst (monitoredTransaction s p1) = settles_to p1
          \<and> fst (monitoredTransaction s1 p2) = settles_to p2
          \<and> consecutiveFailures (circuitBreaker s2) = 2
          \<and> \<not> isActive (circuitBreaker s2)
          \<and> \<not> tripped s2
          \<and> consecutiveFailures (circuitBreaker s3) = 3
          \<and> tripped s3
          \<and> isActive (circuitBreaker s3) = (p3 \<noteq> RejectedNullish)
          \<and> fst (monitoredTransaction s2 p3) =
              (if p3 = RejectedNullish then Some (Inl TypeError)
               else Some (Inl (EMERGENCY_STOP Too_many_consecutive_failures)))"
proof -
  obtain s1 where s1: "s1 = snd (monitoredTransaction s p1)" by simp
  have r1: "fst (monitoredTransaction s p1) = settles_to p1"
    and c1: "consecutiveFailures (circuitBreaker s1) = 1"
    and a1: "\<not> isActive (circuitBreaker s1)"
    and m1: "maxFailures (circuitBreaker s1) = 3"
    using assms(1-4) unfolding s1
    by (cases p1; simp add: monitoredTransaction_Rejected_eq tripped_def countFailure_simps
        activateCircuitBreaker_simps del: monitoredTransaction.simps(2))+
  obtain s2 where s2: "s2 = snd (monitoredTransaction s1 p2)" by simp
  have r2: "fst (monitoredTransaction s1 p2) = settles_to p2"
    and c2: "consecutiveFailures (circuitBreaker s2) = 2"
    and a2: "\<not> isActive (circuitBreaker s2)"
    and m2: "maxFailures (circuitBreaker s2) = 3"
    using c1 a1 m1 assms(5) unfolding s2
    by (cases p2; simp add: monitoredTransaction_Rejected_eq tripped_def countFailure_simps
        activateCircuitBreaker_simps del: monitoredTransaction.simps(2))+
  obtain s3 where s3: "s3 = snd (monitoredTransaction s2 p3)" by simp
  have r3: "fst (monitoredTransaction s2 p3) =
              (if p3 = RejectedNullish then Some (Inl TypeError)
               else Some (Inl (EMERGENCY_STOP Too_many_consecutive_failures)))"
    and c3: "consecutiveFailures (circuitBreaker s3) = 3"
    and a3: "isActive (circuitBreaker s3) = (p3 \<noteq> RejectedNullish)"
    and m3: "maxFailures (circuitBreaker s3) = 3"
    using c2 a2 m2 assms(6) unfolding s3
    by (cases p3; simp add: monitoredTransaction_Rejected_eq tripped_def countFailure_simps
        activateCircuitBreaker_simps del: monitoredTransaction.simps(2))+
  have "\<not> tripped s2" using c2 a2 m2 by (simp add: tripped_def)
  moreover have "tripped s3" using c3 m3 by (simp add: tripped_def)
  ultimately show ?thesis
    using r1 r2 r3 c2 a2 c3 a3 unfolding Let_def s1 [symmetric] s2 [symmetric] s3 [symmetric]
    by simp
qed

text \<open>
  C7 fails on the code at one input. The claim: with a threshold of 3, after exactly
  three failures in a row the breaker is tripped. From the initial configuration, two
  operations that revert and a third that rejects with \<^verbatim>\<open>undefined\<close>: the third call
  raises a \<^verbatim>\<open>TypeError\<close>, not the emergency stop, and leaves the count at 3 with
  \<^verbatim>\<open>isActive\<close> false; a success that follows returns its result and resets the count,
  so the breaker never trips. With a third operation that reverts like the first two,
  the same run ends with the flag set, as the claim says.
\<close>

theorem third_failure_with_undefined_leaves_flag_unset:
  "fst (monitoredTransaction
         (state_after_all
            [Call_monitoredTransaction (Rejected (OperationError ''revert'')),
             Call_monitoredTransaction (Rejected (OperationError ''revert''))]
            SAFETY_CONFIG)
         (RejectedNullish :: string promise))
     = Some (Inl TypeError)
   \<and> state_after_all
        [Call_monitoredTransaction (Rejected (OperationError ''revert'')),
         Call_monitoredTransaction (Rejected (OperationError ''revert'')),
         Call_monitoredTransaction (RejectedNullish :: string promise)]
        SAFETY_CONFIG
     = SAFETY_CONFIG\<lparr>circuitBreaker :=
         \<lparr>consecutiveFailures = 3, maxFailures = 3, isActive = False\<rparr>\<rparr>
   \<and> monitoredTransaction
        (SAFETY_CONFIG\<lparr>circuitBreaker :=
           \<lparr>consecutiveFailures = 3, maxFailures = 3, isActive = False\<rparr>\<rparr>)
        (Fulfilled ''0x123'')
     = (Some (Inr ''0x123''),
        SAFETY_CONFIG\<lparr>circuitBreaker :=
            \<lparr>consecutiveFailures = 0, maxFailures = 3, isActive = False\<rparr>,
          testMode :=
            \<lparr>enabled = True, maxTestTrades = 5, completedTrades = 1, maxTestAmount = 500\<rparr>\<rparr>)
   \<and> state_after_all
        [Call_monitoredTransaction (Rejected (OperationError ''revert'')),
         Call_monitoredTransaction (Rejected (OperationError ''revert'')),
         Call_monitoredTransaction (Rejected (OperationError ''revert'') :: string promise)]
        SAFETY_CONFIG
     = SAFETY_CONFIG\<lparr>circuitBreaker :=
         \<lparr>consecutiveFailures = 3, maxFailures = 3, isActive = True\<rparr>\<rparr>"
  by (simp add: state_after_all_def checkCircuitBreaker_def emergencyStop_def countFailure_def
      recordSuccess_def SAFETY_CONFIG_def)

section \<open>C8: deactivating the breaker\<close>

text \<open>
  C8 as stated fails in its second half. The claim: after
  \<^verbatim>\<open>deactivateCircuitBreaker\<close> a monitored transaction that the tripped breaker
  blocked before succeeds. In the state with count 3 and the flag set, the call the
  breaker answers with the emergency stop is the one whose operation reverts; after the
  reset the same call still fails, now with the operation's own error. The call whose
  operation succeeds was never blocked: it returns its result in the tripped state
  already.
\<close>

theorem disarm_does_not_make_blocked_call_succeed:
  "fst (monitoredTransaction
         (SAFETY_CONFIG\<lparr>circuitBreaker :=
            \<lparr>consecutiveFailures = 3, maxFailures = 3, isActive = True\<rparr>\<rparr>)
         (Rejected (OperationError ''revert'') :: string promise))
     = Some (Inl (EMERGENCY_STOP Too_many_consecutive_failures))
   \<and> fst (monitoredTransaction
         (deactivateCircuitBreaker
            (SAFETY_CONFIG\<lparr>circuitBreaker :=
               \<lparr>consecutiveFailures = 3, maxFailures = 3, isActive = True\<rparr>\<rparr>))
         (Rejected (OperationError ''revert'') :: string promise))
     = Some (Inl (OperationError ''revert''))
   \<and> fst (monitoredTransaction
         (SAFETY_CONFIG\<lparr>circuitBreaker :=
            \<lparr>consecutiveFailures = 3, maxFailures = 3, isActive = True\<rparr>\<rparr>)
         (Fulfilled ''0x123''))
     = Some (Inr ''0x123'')"
  by (simp add: checkCircuitBreaker_def emergencyStop_def countFailure_def
      deactivateCircuitBreaker_def)

text \<open>
  C8, amended. \<^verbatim>\<open>deactivateCircuitBreaker\<close> leaves the state with
  \<^verbatim>\<open>isActive = false\<close> and \<^verbatim>\<open>consecutiveFailures = 0\<close>, both in the one state it
  returns, and changes nothing else; the breaker is then not tripped (unless the
  threshold itself is 0). After it the breaker no longer answers a failing call, as long
  as the threshold is above 1: the call is rejected with the operation's own error, the
  count is 1 and the flag stays unset (with a threshold of 0 or 1 that one failure trips
  the breaker again). A succeeding call returns its result after the reset, leaves the
  count at 0 and the flag unset and, while test mode is enabled, counts the trade; it
  returned its result before the reset as well.
\<close>

theorem deactivateCircuitBreaker_resets_both:
  "deactivateCircuitBreaker s =
     s\<lparr>circuitBreaker := (circuitBreaker s)\<lparr>consecutiveFailures := 0, isActive := False\<rparr>\<rparr>
   \<and> isActive (circuitBreaker (deactivateCircuitBreaker s)) = False
   \<and> consecutiveFailures (circuitBreaker (deactivateCircuitBreaker s)) = 0
   \<and> tripped (deactivateCircuitBreaker s) = (maxFailures (circuitBreaker s) = 0)
   \<and> monitoredTransaction (deactivateCircuitBreaker s) (Rejected e :: 'a promise) =
       (if maxFailures (circuitBreaker s) \<le> 1
        then (Some (Inl (EMERGENCY_STOP Too_many_consecutive_failures)),
              s\<lparr>circuitBreaker := (circuitBreaker s)
                  \<lparr>consecutiveFailures := 1, isActive := True\<rparr>\<rparr>)
        else (Some (Inl e),
              s\<lparr>circuitBreaker := (circuitBreaker s)
                  \<lparr>consecutiveFailures := 1, isActive := False\<rparr>\<rparr>))
   \<and> monitoredTransaction (deactivateCircuitBreaker s) (Fulfilled (r :: 'a)) =
       (Some (Inr r),
        s\<lparr>circuitBreaker := (circuitBreaker s)\<lparr>consecutiveFailures := 0, isActive := False\<rparr>,
          testMode := (testMode s)
            \<lparr>completedTrades :=
               (if enabled (testMode s) then completedTrades (testMode s) + 1
                else completedTrades (testMode s))\<rparr>\<rparr>)
   \<and> fst (monitoredTransaction s (Fulfilled r)) = Some (Inr r)"
proof -
  have d: "deactivateCircuitBreaker s =
     s\<lparr>circuitBreaker := (circuitBreaker s)\<lparr>consecutiveFailures := 0, isActive := False\<rparr>\<rparr>"
    by (simp add: deactivateCircuitBreaker_def Let_def)
  have t: "tripped (deactivateCircuitBreaker s) = (maxFailures (circuitBreaker s) = 0)"
    by (simp add: tripped_def deactivateCircuitBreaker_simps)
  have f: "monitoredTransaction (deactivateCircuitBreaker s) (Rejected e :: 'a promise) =
       (if maxFailures (circuitBreaker s) \<le> 1
        then (Some (Inl (EMERGENCY_STOP Too_many_consecutive_failures)),
              s\<lparr>circuitBreaker := (circuitBreaker s)
                  \<lparr>consecutiveFailures := 1, isActive := True\<rparr>\<rparr>)
        else (Some (Inl e),
              s\<lparr>circuitBreaker := (circuitBreaker s)
                  \<lparr>consecutiveFailures := 1, isActive := False\<rparr>\<rparr>))"
    by (simp add: checkCircuitBreaker_def emergencyStop_def countFailure_def
        deactivateCircuitBreaker_def Let_def)
  have g: "monitoredTransaction (deactivateCircuitBreaker s) (Fulfilled r) =
       (Some (Inr r),
        s\<lparr>circuitBreaker := (circuitBreaker s)\<lparr>consecutiveFailures := 0, isActive := False\<rparr>,
          testMode := (testMode s)
            \<lparr>completedTrades :=
               (if enabled (testMode s) then completedTrades (testMode s) + 1
                else completedTrades (testMode s))\<rparr>\<rparr>)"
    by (simp add: recordSuccess_def deactivateCircuitBreaker_def Let_def)
  have b: "fst (monitoredTransaction s (Fulfilled r)) = Some (Inr r)"
    by simp
  have i: "isActive (circuitBreaker (deactivateCircuitBreaker s)) = False"
    "consecutiveFailures (circuitBreaker (deactivateCircuitBreaker s)) = 0"
    by (simp_all add: deactivateCircuitBreaker_simps)
  from d i t f g b show ?thesis
    by blast
qed

text \<open>
  The amended C8 on the state after three failures (count 3, flag set, test mode
  enabled): after the reset the breaker is not tripped, a reverting call gets its own
  error back with the count at 1, and a succeeding call returns its result and is
  counted as test trade 1.
\<close>

theorem deactivateCircuitBreaker_resets_both_witness:
  "tripped (SAFETY_CONFIG\<lparr>circuitBreaker :=
              \<lparr>consecutiveFailures = 3, maxFailures = 3, isActive = True\<rparr>\<rparr>)
   \<and> tripped (deactivateCircuitBreaker
        (SAFETY_CONFIG\<lparr>circuitBreaker :=
           \<lparr>consecutiveFailures = 3, maxFailures = 3, isActive = True\<rparr>\<rparr>)) = False
   \<and> monitoredTransaction
        (deactivateCircuitBreaker
          (SAFETY_CONFIG\<lparr>circuitBreaker :=
             \<lparr>consecutiveFailures = 3, maxFailures = 3, isActive = True\<rparr>\<rparr>))
        (Rejected (OperationError ''revert'') :: string promise)
      = (Some (Inl (OperationError ''revert'')),
         SAFETY_CONFIG\<lparr>circuitBreaker :=
           \<lparr>consecutiveFailures = 1, maxFailures = 3, isActive = False\<rparr>\<rparr>)
   \<and> monitoredTransaction
        (deactivateCircuitBreaker
          (SAFETY_CONFIG\<lparr>circuitBreaker :=
             \<lparr>consecutiveFailures = 3, maxFailures = 3, isActive = True\<rparr>\<rparr>))
        (Fulfilled ''0x123'')
      = (Some (Inr ''0x123''),
         SAFETY_CONFIG\<lparr>circuitBreaker :=
             \<lparr>consecutiveFailures = 0, maxFailures = 3, isActive = False\<rparr>,
           testMode :=
             \<lparr>enabled = True, maxTestTrades = 5, completedTrades = 1, maxTestAmount = 500\<rparr>\<rparr>)"
proof -
  let ?s3 = "SAFETY_CONFIG\<lparr>circuitBreaker :=
               \<lparr>consecutiveFailures = 3, maxFailures = 3, isActive = True\<rparr>\<rparr>"
  note th = deactivateCircuitBreaker_resets_both [of ?s3 "OperationError ''revert''" "''0x123''"]
  have t: "tripped ?s3"
    by (simp add: tripped_def)
  from th have "tripped (deactivateCircuitBreaker ?s3) = (maxFailures (circuitBreaker ?s3) = 0)"
    by blast
  then have d: "tripped (deactivateCircuitBreaker ?s3) = False"
    by simp
  from th have "monitoredTransaction (deactivateCircuitBreaker ?s3)
        (Rejected (OperationError ''revert'') :: string promise) =
       (if maxFailures (circuitBreaker ?s3) \<le> 1
        then (Some (Inl (EMERGENCY_STOP Too_many_consecutive_failures)),
              ?s3\<lparr>circuitBreaker := (circuitBreaker ?s3)
                  \<lparr>consecutiveFailures := 1, isActive := True\<rparr>\<rparr>)
        else (Some (Inl (OperationError ''revert'')),
              ?s3\<lparr>circuitBreaker := (circuitBreaker ?s3)
                  \<lparr>consecutiveFailures := 1, isActive := False\<rparr>\<rparr>))"
    by blast
  then have f: "monitoredTransaction (deactivateCircuitBreaker ?s3)
        (Rejected (OperationError ''revert'') :: string promise)
      = (Some (Inl (OperationError ''revert'')),
         SAFETY_CONFIG\<lparr>circuitBreaker :=
           \<lparr>consecutiveFailures = 1, maxFailures = 3, isActive = False\<rparr>\<rparr>)"
    by (simp del: monitoredTransaction.simps)
  from th have "monitoredTransaction (deactivateCircuitBreaker ?s3) (Fulfilled ''0x123'') =
       (Some (Inr ''0x123''),
        ?s3\<lparr>circuitBreaker := (circuitBreaker ?s3)\<lparr>consecutiveFailures := 0, isActive := False\<rparr>,
          testMode := (testMode ?s3)
            \<lparr>completedTrades :=
               (if enabled (testMode ?s3) then completedTrades (testMode ?s3) + 1
                else completedTrades (testMode ?s3))\<rparr>\<rparr>)"
    by blast
  then have g: "monitoredTransaction (deactivateCircuitBreaker ?s3) (Fulfilled ''0x123'')
      = (Some (Inr ''0x123''),
         SAFETY_CONFIG\<lparr>circuitBreaker :=
             \<lparr>consecutiveFailures = 0, maxFailures = 3, isActive = False\<rparr>,
           testMode :=
             \<lparr>enabled = True, maxTestTrades = 5, completedTrades = 1, maxTestAmount = 500\<rparr>\<rparr>)"
    by (simp add: SAFETY_CONFIG_def del: monitoredTransaction.simps)
  from t d f g show ?thesis
    by blast
qed

section \<open>C9: what changes the failure count\<close>

text \<open>
  C9. For every call of the module: \<^verbatim>\<open>consecutiveFailures\<close> is one more after a
  monitored transaction that failed, 0 after one that succeeded, 0 after
  \<^verbatim>\<open>deactivateCircuitBreaker\<close>, and what it was after any other call (and after a
  monitored transaction whose promise never settles).
\<close>

theorem consecutiveFailures_changes_only_by_outcome_or_disarm:
  "consecutiveFailures (circuitBreaker (state_after c s)) =
     (case c of
        Call_monitoredTransaction p \<Rightarrow>
          (case p of
             Fulfilled r \<Rightarrow> 0
           | Rejected e \<Rightarrow> consecutiveFailures (circuitBreaker s) + 1
           | RejectedNullish \<Rightarrow> consecutiveFailures (circuitBreaker s) + 1
           | Pending \<Rightarrow> consecutiveFailures (circuitBreaker s))
      | Call_deactivateCircuitBreaker \<Rightarrow> 0
      | _ \<Rightarrow> consecutiveFailures (circuitBreaker s))"
proof (cases c)
  case (Call_validateFlashloanProvider a)
  then show ?thesis
    using snd_validateFlashloanProvider [of s a] by (auto simp: activateCircuitBreaker_simps)
next
  case (Call_validateTransaction txData)
  then show ?thesis
    using snd_validateTransaction [of s txData] by (auto simp: activateCircuitBreaker_simps)
next
  case Call_checkCircuitBreaker
  then show ?thesis
    using snd_checkCircuitBreaker [of s] by (auto simp: activateCircuitBreaker_simps)
next
  case (Call_monitoredTransaction p)
  then show ?thesis
    by (simp add: snd_monitoredTransaction activateCircuitBreaker_simps countFailure_simps
        recordSuccess_simps split: promise.split)
qed (simp_all add: emergencyStop_eq activateCircuitBreaker_simps deactivateCircuitBreaker_simps
      disableTestMode_def)

text \<open>
  C9 at two calls on the initial configuration: a failing monitored transaction (the
  count becomes 1) and a rejected validation (the count stays 0).
\<close>

theorem consecutiveFailures_changes_only_by_outcome_or_disarm_witness:
  "consecutiveFailures (circuitBreaker
      (state_after (Call_monitoredTransaction (Rejected (OperationError ''revert'') :: string promise))
         SAFETY_CONFIG)) = 1
   \<and> consecutiveFailures (circuitBreaker
      (state_after (Call_validateTransaction \<lparr>gasPrice = Some 2000, amount = None\<rparr> :: string call)
         SAFETY_CONFIG)) = 0"
proof -
  have z: "consecutiveFailures (circuitBreaker SAFETY_CONFIG) = 0"
    by (simp add: SAFETY_CONFIG_def)
  from consecutiveFailures_changes_only_by_outcome_or_disarm
         [of "Call_monitoredTransaction (Rejected (OperationError ''revert'') :: string promise)"
             SAFETY_CONFIG]
       consecutiveFailures_changes_only_by_outcome_or_disarm
         [of "Call_validateTransaction \<lparr>gasPrice = Some 2000, amount = None\<rparr> :: string call"
             SAFETY_CONFIG]
  show ?thesis
    by (simp add: z del: state_after.simps)
qed

section \<open>C10: a rejection changes the flag and nothing else\<close>

text \<open>
  C10. Whenever \<^verbatim>\<open>validateTransaction\<close> or \<^verbatim>\<open>validateFlashloanProvider\<close> rejects,
  the state it leaves behind is the state before with \<^verbatim>\<open>isActive\<close> set to true:
  \<^verbatim>\<open>consecutiveFailures\<close>, the threshold, the test mode object (with
  \<^verbatim>\<open>completedTrades\<close>), the limits and the provider list are what they were.
\<close>

theorem validator_rejection_changes_flag_only:
  assumes "validateTransaction s txData = (Inl e, s') \<or> validateFlashloanProvider s a = (Inl e, s')"
  shows "s' = s\<lparr>circuitBreaker := (circuitBreaker s)\<lparr>isActive := True\<rparr>\<rparr>
       \<and> consecutiveFailures (circuitBreaker s') = consecutiveFailures (circuitBreaker s)
       \<and> maxFailures (circuitBreaker s') = maxFailures (circuitBreaker s)
       \<and> testMode s' = testMode s
       \<and> maxSlippageTolerance s' = maxSlippageTolerance s
       \<and> maxGasPrice s' = maxGasPrice s
       \<and> maxTradeSize s' = maxTradeSize s
       \<and> authorizedFlashloanProviders s' = authorizedFlashloanProviders s"
  using assms validateTransaction_cases [of s txData] validateFlashloanProvider_cases [of s a]
  by (auto simp: activateCircuitBreaker_def)

text \<open>
  C10 at a concrete input: a gas price of 2000 is rejected in the initial configuration,
  and the test mode object of the state left behind is the one of the state before.
\<close>

theorem validator_rejection_changes_flag_only_witness:
  "validateTransaction SAFETY_CONFIG \<lparr>gasPrice = Some 2000, amount = Some 100\<rparr>
     = (Inl (EMERGENCY_STOP (Gas_price_too_high 2000 1000)),
        SAFETY_CONFIG\<lparr>circuitBreaker := (circuitBreaker SAFETY_CONFIG)\<lparr>isActive := True\<rparr>\<rparr>)
   \<and> testMode (SAFETY_CONFIG\<lparr>circuitBreaker := (circuitBreaker SAFETY_CONFIG)\<lparr>isActive := True\<rparr>\<rparr>)
       = testMode SAFETY_CONFIG"
proof -
  have v: "validateTransaction SAFETY_CONFIG \<lparr>gasPrice = Some 2000, amount = Some 100\<rparr>
     = (Inl (EMERGENCY_STOP (Gas_price_too_high 2000 1000)),
        SAFETY_CONFIG\<lparr>circuitBreaker := (circuitBreaker SAFETY_CONFIG)\<lparr>isActive := True\<rparr>\<rparr>)"
    by (simp add: validateTransaction_def and_then_def gasPriceCheck_def emergencyStop_def
        SAFETY_CONFIG_def)
  from validator_rejection_changes_flag_only [OF disjI1 [OF v]] v show ?thesis
    by simp
qed

end
